theory Spec2Isabelle
  imports Main
begin

section \<open>Data model\<close>

text \<open>
  A JavaScript string is modelled as a \<open>string\<close>, one \<open>char\<close> per code unit, so that
  \<open>length\<close> is the \<open>.length\<close> of the source. A Firestore document is a finite map from
  field names to values; every field the flows read or write holds a string.
\<close>

type_synonym doc = "string \<rightharpoonup> string"

text \<open>
  An object literal handed to \<open>setDoc\<close>: the fields in the order written, \<open>None\<close> for a
  field whose value is \<open>undefined\<close>.
\<close>

type_synonym fields = "(string \<times> string option) list"

text \<open>The \<open>user\<close> object of a credential: \<open>user.uid\<close>, \<open>user.email\<close>, \<open>user.displayName\<close>
  (\<open>None\<close> when null).\<close>

record authUser =
  uid :: string
  user_email :: string
  displayName :: "string option"

text \<open>A thrown error: \<open>err.code\<close> and \<open>err.message\<close>.\<close>

record err =
  err_code :: string
  err_message :: string

text \<open>An email/password credential held by the identity provider.\<close>

record account =
  acc_uid :: string
  acc_password :: string

text \<open>The remote calls a flow makes, logged in the order made.\<close>

datatype call =
    CreateUser string string
  | SignIn string string
  | SignInPopup
  | SignOut
  | GetDoc string string
  | GetDocs string
  | SetDoc string string fields
  | UpdateDoc string string fields

text \<open>
  The remote state: the provider's email/password credentials by email, the signed-in
  session (\<open>auth.currentUser\<close>), the document store by collection and document id, and the
  log of remote calls.
\<close>

record world =
  accounts :: "string \<rightharpoonup> account"
  session :: "string option"
  store :: "string \<Rightarrow> string \<rightharpoonup> doc"
  calls :: "call list"

text \<open>
  How a store write settles, and after how many milliseconds: the promise resolves,
  rejects, or stays pending for ever.
\<close>

datatype settle = Resolves nat | Rejects nat | Never

text \<open>
  What the flows take from outside during one run: whether the provider fails a
  creation or a login for a reason of its own (with its message), the uid it issues to a new
  email, what the federated popup yields, whether store reads fail, how a write that
  reaches the store settles, and the clock (\<open>new Date().toISOString()\<close>).
  \<open>ignoreUndefinedProperties\<close> is the setting of that name of the \<open>db\<close> handle. The handle
  comes from the module \<open>../../firebase\<close>, which is not among the sources, so the setting is
  a parameter; \<open>False\<close> is the default of the SDK.
\<close>

record env =
  create_fault :: "string option"
  login_fault :: "string option"
  issue_uid :: "string \<Rightarrow> string"
  popup :: "err + authUser"
  read_fails :: bool
  write_settles :: settle
  ignoreUndefinedProperties :: bool
  now :: string

section \<open>The identity provider and the document store\<close>

text \<open>
  The provider and the store are external services. Their models follow the interfaces
  the flows consume: creation fails with \<open>auth/email-already-in-use\<close> on a registered email
  and signs the new identity in otherwise; login succeeds on the registered password;
  \<open>setDoc\<close> with \<open>merge: true\<close> overwrites the fields given a value and leaves every other
  field of the document as it is. The SDK checks the data before it sends anything: a field
  whose value is \<open>undefined\<close> makes \<open>setDoc\<close> and \<open>updateDoc\<close> throw "Unsupported field value:
  undefined", unless the handle was set up to ignore undefined properties, and then the
  field is left out of the write.
\<close>

definition logged :: "call \<Rightarrow> world \<Rightarrow> world" where
  "logged c w = w\<lparr>calls := calls w @ [c]\<rparr>"

definition createUserWithEmailAndPassword ::
  "env \<Rightarrow> string \<Rightarrow> string \<Rightarrow> world \<Rightarrow> (err + authUser) \<times> world" where
  "createUserWithEmailAndPassword ev e p w =
    (let w1 = logged (CreateUser e p) w in
     case create_fault ev of
       Some m \<Rightarrow> (Inl \<lparr>err_code = ''auth/network-request-failed'', err_message = m\<rparr>, w1)
     | None \<Rightarrow>
        (case accounts w e of
           Some a \<Rightarrow> (Inl \<lparr>err_code = ''auth/email-already-in-use'',
                           err_message = ''Firebase: Error (auth/email-already-in-use).''\<rparr>, w1)
         | None \<Rightarrow>
            (let u = issue_uid ev e in
             (Inr \<lparr>uid = u, user_email = e, displayName = None\<rparr>,
              w1\<lparr>accounts := (accounts w)(e \<mapsto> \<lparr>acc_uid = u, acc_password = p\<rparr>),
                  session := Some u\<rparr>))))"

definition signInWithEmailAndPassword ::
  "env \<Rightarrow> string \<Rightarrow> string \<Rightarrow> world \<Rightarrow> (err + authUser) \<times> world" where
  "signInWithEmailAndPassword ev e p w =
    (let w1 = logged (SignIn e p) w in
     case login_fault ev of
       Some m \<Rightarrow> (Inl \<lparr>err_code = ''auth/network-request-failed'', err_message = m\<rparr>, w1)
     | None \<Rightarrow>
        (case accounts w e of
           None \<Rightarrow> (Inl \<lparr>err_code = ''auth/invalid-credential'',
                         err_message = ''Firebase: Error (auth/invalid-credential).''\<rparr>, w1)
         | Some a \<Rightarrow>
            if acc_password a = p
            then (Inr \<lparr>uid = acc_uid a, user_email = e, displayName = None\<rparr>,
                  w1\<lparr>session := Some (acc_uid a)\<rparr>)
            else (Inl \<lparr>err_code = ''auth/invalid-credential'',
                       err_message = ''Firebase: Error (auth/invalid-credential).''\<rparr>, w1)))"

definition signInWithPopup :: "env \<Rightarrow> world \<Rightarrow> (err + authUser) \<times> world" where
  "signInWithPopup ev w =
    (let w1 = logged SignInPopup w in
     case popup ev of
       Inl e \<Rightarrow> (Inl e, w1)
     | Inr u \<Rightarrow> (Inr u, w1\<lparr>session := Some (uid u)\<rparr>))"

definition signOut :: "world \<Rightarrow> world" where
  "signOut w = (logged SignOut w)\<lparr>session := None\<rparr>"

definition store_error :: err where
  "store_error = \<lparr>err_code = ''unavailable'', err_message = ''Failed to reach the store.''\<rparr>"

text \<open>\<open>getDoc\<close>: the snapshot is \<open>None\<close> when \<open>exists()\<close> is false, the document otherwise.\<close>

definition getDoc :: "env \<Rightarrow> string \<Rightarrow> string \<Rightarrow> world \<Rightarrow> (err + doc option) \<times> world" where
  "getDoc ev c i w =
    (let w1 = logged (GetDoc c i) w in
     if read_fails ev then (Inl store_error, w1) else (Inr (store w c i), w1))"

definition defined_fields :: "fields \<Rightarrow> doc" where
  "defined_fields data = map_of (List.map_filter (\<lambda>(k, v). map_option (Pair k) v) data)"

definition merge_doc :: "doc option \<Rightarrow> fields \<Rightarrow> doc" where
  "merge_doc old data = (case old of None \<Rightarrow> Map.empty | Some d \<Rightarrow> d) ++ defined_fields data"

text \<open>The store once a \<open>setDoc(ref, data, {merge: true})\<close> has resolved.\<close>

definition written :: "string \<Rightarrow> string \<Rightarrow> fields \<Rightarrow> world \<Rightarrow> world" where
  "written c i data w =
     w\<lparr>store := (store w)(c := (store w c)(i \<mapsto> merge_doc (store w c i) data))\<rparr>"

text \<open>
  The check of the data: \<open>refuses\<close> holds when the call throws before anything is sent. The
  message of the SDK goes on to name the field and the document; the model keeps its fixed
  part.
\<close>

definition has_undefined :: "fields \<Rightarrow> bool" where
  "has_undefined data = list_ex (\<lambda>(k, v). v = None) data"

definition refuses :: "env \<Rightarrow> fields \<Rightarrow> bool" where
  "refuses ev data = (has_undefined data \<and> \<not> ignoreUndefinedProperties ev)"

definition invalid_data :: "string \<Rightarrow> err" where
  "invalid_data fn =
     \<lparr>err_code = ''invalid-argument'',
      err_message = ''Function '' @ fn @
        ''() called with invalid data. Unsupported field value: undefined''\<rparr>"

text \<open>
  How the promise of a write settles: at once with a rejection when the data is refused,
  as the store decides otherwise.
\<close>

definition write_promise :: "env \<Rightarrow> fields \<Rightarrow> settle" where
  "write_promise ev data = (if refuses ev data then Rejects 0 else write_settles ev)"

definition write_error :: "env \<Rightarrow> string \<Rightarrow> fields \<Rightarrow> err" where
  "write_error ev fn data = (if refuses ev data then invalid_data fn else store_error)"

text \<open>
  An awaited \<open>setDoc(ref, data, {merge: true})\<close>: the call is logged; the write lands if the
  promise resolves, an error is thrown if it rejects, and \<open>None\<close> stands for an \<open>await\<close>
  that never resumes.
\<close>

definition setDoc_merge ::
  "env \<Rightarrow> string \<Rightarrow> string \<Rightarrow> fields \<Rightarrow> world \<Rightarrow> ((err + unit) \<times> world) option" where
  "setDoc_merge ev c i data w =
    (let w1 = logged (SetDoc c i data) w in
     case write_promise ev data of
       Resolves t \<Rightarrow> Some (Inr (), written c i data w1)
     | Rejects t \<Rightarrow> Some (Inl (write_error ev ''setDoc'' data), w1)
     | Never \<Rightarrow> None)"

text \<open>\<open>updateDoc\<close> also rejects on a document that does not exist.\<close>

definition updateDoc ::
  "env \<Rightarrow> string \<Rightarrow> string \<Rightarrow> fields \<Rightarrow> world \<Rightarrow> ((err + unit) \<times> world) option" where
  "updateDoc ev c i data w =
    (let w1 = logged (UpdateDoc c i data) w in
     case write_promise ev data of
       Resolves t \<Rightarrow>
         (if store w c i = None
          then Some (Inl \<lparr>err_code = ''not-found'', err_message = ''No document to update''\<rparr>, w1)
          else Some (Inr (), written c i data w1))
     | Rejects t \<Rightarrow> Some (Inl (write_error ev ''updateDoc'' data), w1)
     | Never \<Rightarrow> None)"

section \<open>AdminRegistration\<close>

text \<open>The form (\<open>formData\<close>) and the component state the handlers read.\<close>

record credentials =
  email :: string
  password :: string
  confirmPassword :: string

record adminForm = credentials +
  adminCode :: string

record adminState =
  systemAdminCode :: "string option"
  loadingCode :: bool

text \<open>
  What a run of a handler ends in. \<open>Ignored\<close>: the handler returned at once because the
  code was still loading. \<open>CodeMismatch\<close>, \<open>PasswordMismatch\<close>, \<open>WeakPassword\<close>: the three
  validation messages. \<open>Created\<close> and \<open>Restored\<close>: \<open>onRegister()\<close> was called, after a new
  account or after a restore. \<open>Denied\<close>: the banned message. \<open>IncorrectCredential\<close>: the
  message of the inner \<open>catch\<close> ("already registered, but the password was incorrect").
  \<open>Failed\<close>: the message of the outer \<open>catch\<close>. \<open>AlreadyRegistered\<close>: the message
  of UserRegistration on an email in use ("already registered. Please Log In.").
\<close>

datatype outcome =
    Ignored
  | CodeMismatch
  | PasswordMismatch
  | WeakPassword
  | Created
  | Restored
  | Denied
  | IncorrectCredential
  | AlreadyRegistered
  | Failed string

text \<open>
  \<open>fetchAdminCode\<close>: the value \<open>systemAdminCode\<close> is set to. The stored key is used when
  \<open>docSnap.exists() && docSnap.data().registrationKey\<close> is truthy, that is when the field is
  present and not the empty string.
\<close>

definition fetchAdminCode :: "env \<Rightarrow> world \<Rightarrow> string \<times> world" where
  "fetchAdminCode ev w =
    (case getDoc ev ''settings'' ''admin_config'' w of
       (Inl e, w1) \<Rightarrow> (''ADMIN2025'', w1)
     | (Inr docSnap, w1) \<Rightarrow>
        (case docSnap of
           None \<Rightarrow> (''ADMIN2025'', w1)
         | Some d \<Rightarrow>
            (case d ''registrationKey'' of
               None \<Rightarrow> (''ADMIN2025'', w1)
             | Some k \<Rightarrow> if k \<noteq> [] then (k, w1) else (''ADMIN2025'', w1))))"

text \<open>
  \<open>setupAdminProfile\<close>: one awaited merge-write, with no timeout around it. \<open>None\<close>: the
  write never settles and the caller never resumes. The literal always has one field with
  the value \<open>undefined\<close>: \<open>restoredAt\<close> for a new profile, \<open>createdAt\<close> for a restore.
\<close>

definition admin_profile :: "env \<Rightarrow> authUser \<Rightarrow> bool \<Rightarrow> fields" where
  "admin_profile ev user isRestore =
    [(''uid'', Some (uid user)),
     (''email'', Some (user_email user)),
     (''role'', Some ''admin''),
     (''status'', Some ''active''),
     (''createdAt'', if isRestore then None else Some (now ev)),
     (''restoredAt'', if isRestore then Some (now ev) else None)]"

definition setupAdminProfile ::
  "env \<Rightarrow> authUser \<Rightarrow> bool \<Rightarrow> world \<Rightarrow> ((err + unit) \<times> world) option" where
  "setupAdminProfile ev user isRestore w =
     setDoc_merge ev ''users'' (uid user) (admin_profile ev user isRestore) w"

text \<open>\<open>userDoc.exists() && userDoc.data().status === 'banned'\<close>\<close>

definition is_banned :: "doc option \<Rightarrow> bool" where
  "is_banned userDoc = (case userDoc of None \<Rightarrow> False | Some d \<Rightarrow> d ''status'' = Some ''banned'')"

definition or_unknown :: "string \<Rightarrow> string" where
  "or_unknown m = (if m = [] then ''Unknown error'' else m)"

text \<open>The inner \<open>try\<close> of \<open>handleSubmit\<close>: log in, check the ban, restore.\<close>

definition recover :: "env \<Rightarrow> adminForm \<Rightarrow> world \<Rightarrow> (outcome \<times> world) option" where
  "recover ev fd w =
    (case signInWithEmailAndPassword ev (email fd) (password fd) w of
       (Inl loginErr, w1) \<Rightarrow> Some (IncorrectCredential, w1)
     | (Inr user, w1) \<Rightarrow>
        (case getDoc ev ''users'' (uid user) w1 of
           (Inl loginErr, w2) \<Rightarrow> Some (IncorrectCredential, w2)
         | (Inr userDoc, w2) \<Rightarrow>
            if is_banned userDoc then Some (Denied, signOut w2)
            else
              (case setupAdminProfile ev user True w2 of
                 None \<Rightarrow> None
               | Some (Inl loginErr, w3) \<Rightarrow> Some (IncorrectCredential, w3)
               | Some (Inr _, w3) \<Rightarrow> Some (Restored, w3))))"

text \<open>The outer \<open>catch\<close> of \<open>handleSubmit\<close>.\<close>

definition handleSubmit_catch :: "env \<Rightarrow> adminForm \<Rightarrow> err \<Rightarrow> world \<Rightarrow> (outcome \<times> world) option" where
  "handleSubmit_catch ev fd e w =
    (if err_code e = ''auth/email-already-in-use'' then recover ev fd w
     else Some (Failed (''Failed to register. '' @ or_unknown (err_message e)), w))"

definition handleSubmit :: "env \<Rightarrow> adminState \<Rightarrow> adminForm \<Rightarrow> world \<Rightarrow> (outcome \<times> world) option" where
  "handleSubmit ev st fd w =
    (if loadingCode st then Some (Ignored, w)
     else if Some (adminCode fd) \<noteq> systemAdminCode st then Some (CodeMismatch, w)
     else if password fd \<noteq> confirmPassword fd then Some (PasswordMismatch, w)
     else if length (password fd) < 6 then Some (WeakPassword, w)
     else
       (case createUserWithEmailAndPassword ev (email fd) (password fd) w of
          (Inl e, w1) \<Rightarrow> handleSubmit_catch ev fd e w1
        | (Inr user, w1) \<Rightarrow>
           (case setupAdminProfile ev user False w1 of
              None \<Rightarrow> None
            | Some (Inl e, w2) \<Rightarrow> handleSubmit_catch ev fd e w2
            | Some (Inr _, w2) \<Rightarrow> Some (Created, w2))))"

definition handleGoogleRegister ::
  "env \<Rightarrow> adminState \<Rightarrow> adminForm \<Rightarrow> world \<Rightarrow> (outcome \<times> world) option" where
  "handleGoogleRegister ev st fd w =
    (if loadingCode st then Some (Ignored, w)
     else if Some (adminCode fd) \<noteq> systemAdminCode st then Some (CodeMismatch, w)
     else
       (case signInWithPopup ev w of
          (Inl e, w1) \<Rightarrow>
            Some (Failed (''Google registration failed. '' @ or_unknown (err_message e)), w1)
        | (Inr user, w1) \<Rightarrow>
           (case getDoc ev ''users'' (uid user) w1 of
              (Inl e, w2) \<Rightarrow>
                Some (Failed (''Google registration failed. '' @ or_unknown (err_message e)), w2)
            | (Inr userDoc, w2) \<Rightarrow>
               if is_banned userDoc then Some (Denied, signOut w2)
               else
                 (case setupAdminProfile ev user True w2 of
                    None \<Rightarrow> None
                  | Some (Inl e, w3) \<Rightarrow>
                      Some (Failed (''Google registration failed. '' @ or_unknown (err_message e)), w3)
                  | Some (Inr _, w3) \<Rightarrow> Some (Restored, w3)))))"

section \<open>UserRegistration\<close>

record userForm = credentials +
  fullName :: string
  phone :: string

text \<open>
  \<open>withTimeout(promise, ms)\<close> races the promise against a timer that rejects after \<open>ms\<close>
  milliseconds; the timer is taken to win a tie.
\<close>

definition withTimeout :: "settle \<Rightarrow> nat \<Rightarrow> settle" where
  "withTimeout promise ms =
    (case promise of
       Resolves t \<Rightarrow> if t < ms then Resolves t else Rejects ms
     | Rejects t \<Rightarrow> if t < ms then Rejects t else Rejects ms
     | Never \<Rightarrow> Rejects ms)"

text \<open>\<open>formData.fullName || user.displayName || 'User'\<close>\<close>

definition profile_name :: "userForm \<Rightarrow> authUser \<Rightarrow> string" where
  "profile_name fd user =
    (if fullName fd \<noteq> [] then fullName fd
     else case displayName user of
            Some n \<Rightarrow> if n \<noteq> [] then n else ''User''
          | None \<Rightarrow> ''User'')"

definition user_profile :: "env \<Rightarrow> userForm \<Rightarrow> authUser \<Rightarrow> bool \<Rightarrow> fields" where
  "user_profile ev fd user isGoogle =
    [(''uid'', Some (uid user)),
     (''email'', Some (user_email user)),
     (''name'', Some (profile_name fd user)),
     (''phone'', Some (if phone fd \<noteq> [] then phone fd else [])),
     (''role'', Some ''user''),
     (''authProvider'', Some (if isGoogle then ''google'' else ''email'')),
     (''createdAt'', Some (now ev))]"

text \<open>
  \<open>saveUserProfile\<close>: the merge-write under a 5000 ms timeout, its failure swallowed by
  the \<open>catch\<close>. The result is the world when the function returns and the milliseconds it
  waited; \<open>None\<close> would be a call that never returns. A write that the timer beat is not
  in the returned store.
\<close>

definition saveUserProfile ::
  "env \<Rightarrow> userForm \<Rightarrow> authUser \<Rightarrow> bool \<Rightarrow> world \<Rightarrow> (world \<times> nat) option" where
  "saveUserProfile ev fd user isGoogle w =
    (let userData = user_profile ev fd user isGoogle;
         w1 = logged (SetDoc ''users'' (uid user) userData) w in
     case withTimeout (write_promise ev userData) 5000 of
       Resolves t \<Rightarrow> Some (written ''users'' (uid user) userData w1, t)
     | Rejects t \<Rightarrow> Some (w1, t)
     | Never \<Rightarrow> None)"

text \<open>\<open>UserRegistration.handleSubmit\<close>; the third component is the wait for the upsert.\<close>

definition handleSubmit_user ::
  "env \<Rightarrow> userForm \<Rightarrow> world \<Rightarrow> (outcome \<times> world \<times> nat) option" where
  "handleSubmit_user ev fd w =
    (if password fd \<noteq> confirmPassword fd then Some (PasswordMismatch, w, 0)
     else if length (password fd) < 6 then Some (WeakPassword, w, 0)
     else
       (case createUserWithEmailAndPassword ev (email fd) (password fd) w of
          (Inl e, w1) \<Rightarrow>
            if err_code e = ''auth/email-already-in-use'' then Some (AlreadyRegistered, w1, 0)
            else Some (Failed (''Error: '' @ err_message e), w1, 0)
        | (Inr user, w1) \<Rightarrow>
           (case saveUserProfile ev fd user False w1 of
              None \<Rightarrow> None
            | Some (w2, t) \<Rightarrow> Some (Created, w2, t))))"

definition handleGoogleSignup ::
  "env \<Rightarrow> userForm \<Rightarrow> world \<Rightarrow> (outcome \<times> world \<times> nat) option" where
  "handleGoogleSignup ev fd w =
    (case signInWithPopup ev w of
       (Inl e, w1) \<Rightarrow> Some (Failed (''Google sign-up failed: '' @ err_message e), w1, 0)
     | (Inr user, w1) \<Rightarrow>
        (case saveUserProfile ev fd user True w1 of
           None \<Rightarrow> None
         | Some (w2, t) \<Rightarrow> Some (Created, w2, t)))"

section \<open>AdminManagement\<close>

text \<open>
  \<open>fetchData\<close>: the value of \<open>globalRegKey\<close> after the fetch (it starts as \<open>Loading...\<close>
  and stays so when a read throws). The roster list itself is not part of the model; its
  query counts as a read that may throw.
\<close>

definition fetchData :: "env \<Rightarrow> world \<Rightarrow> string \<times> world" where
  "fetchData ev w =
    (let w1 = logged (GetDocs ''users'') w in
     if read_fails ev then (''Loading...'', w1)
     else
       (case getDoc ev ''settings'' ''admin_config'' w1 of
          (Inl e, w2) \<Rightarrow> (''Loading...'', w2)
        | (Inr configSnap, w2) \<Rightarrow>
           (case configSnap of
              Some d \<Rightarrow>
                ((case d ''registrationKey'' of
                    Some k \<Rightarrow> if k \<noteq> [] then k else ''Not Set''
                  | None \<Rightarrow> ''Not Set''), w2)
            | None \<Rightarrow> (''ADMIN2025'', w2))))"

datatype action = UpdateRegKey | Ban | Unban

text \<open>
  What \<open>handleExecute\<close> ends in: \<open>TooShort\<close> is the message "Code is too short (min 5
  chars)."; \<open>Done\<close> the closed modal; \<open>DatabaseError\<close> one of the three "Database Error"
  messages; \<open>NoAction\<close> a call with \<open>actionType\<close> null.
\<close>

datatype exec_result = TooShort | Done | DatabaseError string | NoAction

definition handleExecute ::
  "env \<Rightarrow> action option \<Rightarrow> string \<Rightarrow> string \<Rightarrow> world \<Rightarrow> (exec_result \<times> world) option" where
  "handleExecute ev actionType newValueInput selectedAdmin w =
    (case actionType of
       Some UpdateRegKey \<Rightarrow>
         if length newValueInput < 5 then Some (TooShort, w)
         else
           (case setDoc_merge ev ''settings'' ''admin_config''
                   [(''registrationKey'', Some newValueInput)] w of
              None \<Rightarrow> None
            | Some (Inl e, w1) \<Rightarrow> Some (DatabaseError ''Database Error: Could not update key.'', w1)
            | Some (Inr _, w1) \<Rightarrow> Some (Done, w1))
     | Some Ban \<Rightarrow>
         (case updateDoc ev ''users'' selectedAdmin [(''status'', Some ''banned'')] w of
            None \<Rightarrow> None
          | Some (Inl e, w1) \<Rightarrow> Some (DatabaseError ''Database Error: Could not ban user.'', w1)
          | Some (Inr _, w1) \<Rightarrow> Some (Done, w1))
     | Some Unban \<Rightarrow>
         (case updateDoc ev ''users'' selectedAdmin [(''status'', Some ''active'')] w of
            None \<Rightarrow> None
          | Some (Inl e, w1) \<Rightarrow> Some (DatabaseError ''Database Error: Could not unban user.'', w1)
          | Some (Inr _, w1) \<Rightarrow> Some (Done, w1))
     | None \<Rightarrow> Some (NoAction, w))"

section \<open>Observations and concrete inputs\<close>

text \<open>A configuration record whose \<open>registrationKey\<close> is present and not empty.\<close>

definition truthy_key :: "doc \<Rightarrow> bool" where
  "truthy_key d = (case d ''registrationKey'' of None \<Rightarrow> False | Some k \<Rightarrow> k \<noteq> [])"

text \<open>A field of the profile document of an identity, \<open>None\<close> when the document or the
  field is absent; the outcome of a run; a profile field after a run.\<close>

definition profile_field :: "world \<Rightarrow> string \<Rightarrow> string \<Rightarrow> string option" where
  "profile_field w i f = (case store w ''users'' i of None \<Rightarrow> None | Some d \<Rightarrow> d f)"

definition outcome_of :: "(outcome \<times> world) option \<Rightarrow> outcome option" where
  "outcome_of r = map_option fst r"

definition field_after :: "(outcome \<times> world) option \<Rightarrow> string \<Rightarrow> string \<Rightarrow> string option" where
  "field_after r i f = (case r of None \<Rightarrow> None | Some (out, w) \<Rightarrow> profile_field w i f)"

text \<open>
  An environment where the provider and the store answer and the handle has the default
  setting, two where the store write rejects or never settles, and one where the handle
  ignores undefined properties. The popup yields the Google identity of the same person.
\<close>

definition ann :: authUser where
  "ann = \<lparr>uid = ''u-ann'', user_email = ''ann@cvfms.lk'', displayName = Some ''Ann''\<rparr>"

definition env_ok :: env where
  "env_ok = \<lparr>create_fault = None, login_fault = None, issue_uid = (\<lambda>e. ''u-ann''),
             popup = Inr ann, read_fails = False, write_settles = Resolves 120,
             ignoreUndefinedProperties = False, now = ''2025-06-01T08:00:00.000Z''\<rparr>"

definition env_rejecting :: env where
  "env_rejecting = env_ok\<lparr>write_settles := Rejects 40\<rparr>"

definition env_never :: env where
  "env_never = env_ok\<lparr>write_settles := Never\<rparr>"

definition env_lenient :: env where
  "env_lenient = env_ok\<lparr>ignoreUndefinedProperties := True\<rparr>"

definition state_ok :: adminState where
  "state_ok = \<lparr>systemAdminCode = Some ''ADMIN2025'', loadingCode = False\<rparr>"

definition form_ok :: adminForm where
  "form_ok = \<lparr>email = ''ann@cvfms.lk'', password = ''s3cret!'', confirmPassword = ''s3cret!'',
              adminCode = ''ADMIN2025''\<rparr>"

definition form_wrong_password :: adminForm where
  "form_wrong_password = form_ok\<lparr>password := ''guess123'', confirmPassword := ''guess123''\<rparr>"

definition user_form_ok :: userForm where
  "user_form_ok = \<lparr>email = ''ann@cvfms.lk'', password = ''s3cret!'', confirmPassword = ''s3cret!'',
                   fullName = ''Ann Perera'', phone = ''+94 77 123 4567''\<rparr>"

text \<open>
  Worlds: nothing registered; Ann registered with no profile document; Ann registered
  with an active profile; Ann registered and banned.
\<close>

definition world_empty :: world where
  "world_empty = \<lparr>accounts = Map.empty, session = None, store = (\<lambda>c. Map.empty), calls = []\<rparr>"

definition ann_account :: account where
  "ann_account = \<lparr>acc_uid = ''u-ann'', acc_password = ''s3cret!''\<rparr>"

definition ann_profile :: doc where
  "ann_profile = [''uid'' \<mapsto> ''u-ann'', ''email'' \<mapsto> ''ann@cvfms.lk'', ''role'' \<mapsto> ''user'',
                  ''status'' \<mapsto> ''active'', ''createdAt'' \<mapsto> ''2024-01-15T10:30:00.000Z'']"

definition ann_banned :: doc where
  "ann_banned = ann_profile(''status'' \<mapsto> ''banned'')"

definition world_orphan :: world where
  "world_orphan = world_empty\<lparr>accounts := [''ann@cvfms.lk'' \<mapsto> ann_account]\<rparr>"

definition world_ann :: world where
  "world_ann = world_orphan\<lparr>store := (\<lambda>c. Map.empty)(''users'' := [''u-ann'' \<mapsto> ann_profile])\<rparr>"

definition world_banned :: world where
  "world_banned = world_orphan\<lparr>store := (\<lambda>c. Map.empty)(''users'' := [''u-ann'' \<mapsto> ann_banned])\<rparr>"

text \<open>The configuration record present with no \<open>registrationKey\<close> field.\<close>

definition world_keyless :: world where
  "world_keyless =
     world_empty\<lparr>store := (\<lambda>c. Map.empty)(''settings'' := [''admin_config'' \<mapsto> Map.empty])\<rparr>"

section \<open>Auxiliary facts\<close>

lemmas prim_defs = createUserWithEmailAndPassword_def signInWithEmailAndPassword_def
  signInWithPopup_def getDoc_def signOut_def logged_def setDoc_merge_def written_def
  write_promise_def write_error_def refuses_def Let_def

lemmas fixture_defs = ann_def env_ok_def env_rejecting_def env_never_def env_lenient_def
  state_ok_def form_ok_def form_wrong_password_def user_form_ok_def world_empty_def
  ann_account_def ann_profile_def ann_banned_def world_orphan_def world_ann_def
  world_banned_def world_keyless_def

lemmas admin_flow_defs = handleSubmit_def handleSubmit_catch_def recover_def
  handleGoogleRegister_def setupAdminProfile_def is_banned_def or_unknown_def store_error_def

lemma admin_profile_undefined: "has_undefined (admin_profile ev user isRestore)"
  by (simp add: has_undefined_def admin_profile_def)

text \<open>
  With the default setting of the handle every call of \<open>setupAdminProfile\<close> throws before
  anything is sent; with undefined properties ignored the write goes to the store.
\<close>

lemma setupAdminProfile_refused:
  assumes "\<not> ignoreUndefinedProperties ev"
  shows "setupAdminProfile ev user isRestore w =
           Some (Inl (invalid_data ''setDoc''),
                 logged (SetDoc ''users'' (uid user) (admin_profile ev user isRestore)) w)"
  using assms
  by (simp add: setupAdminProfile_def setDoc_merge_def write_promise_def write_error_def
        refuses_def admin_profile_undefined)

lemma setupAdminProfile_sent:
  assumes "ignoreUndefinedProperties ev"
  shows "setupAdminProfile ev user isRestore w =
           (case write_settles ev of
              Resolves t \<Rightarrow>
                Some (Inr (), written ''users'' (uid user) (admin_profile ev user isRestore)
                         (logged (SetDoc ''users'' (uid user) (admin_profile ev user isRestore)) w))
            | Rejects t \<Rightarrow>
                Some (Inl store_error,
                      logged (SetDoc ''users'' (uid user) (admin_profile ev user isRestore)) w)
            | Never \<Rightarrow> None)"
  using assms
  by (simp add: setupAdminProfile_def setDoc_merge_def write_promise_def write_error_def
        refuses_def split: settle.splits)

lemma recover_banned:
  assumes "accounts w (email fd) = Some a" "store w ''users'' (acc_uid a) = Some d"
    "d ''status'' = Some ''banned''"
  shows "\<exists>out w'. recover ev fd w = Some (out, w') \<and> out \<in> {IncorrectCredential, Denied} \<and>
           store w' = store w \<and> accounts w' = accounts w"
  using assms
  by (auto simp: recover_def prim_defs is_banned_def split: option.splits)

lemma recover_banned_denied:
  assumes "accounts w (email fd) = Some a" "store w ''users'' (acc_uid a) = Some d"
    "d ''status'' = Some ''banned''" "login_fault ev = None" "acc_password a = password fd"
    "\<not> read_fails ev"
  shows "recover ev fd w = Some (Denied,
            w\<lparr>calls := calls w @ [SignIn (email fd) (password fd), GetDoc ''users'' (acc_uid a), SignOut],
               session := None\<rparr>)"
  using assms
  by (simp add: recover_def prim_defs is_banned_def)

lemma handleSubmit_recovers:
  assumes "\<not> loadingCode st" and "Some (adminCode fd) = systemAdminCode st"
    and "password fd = confirmPassword fd" and "6 \<le> length (password fd)"
    and "accounts w (email fd) = Some a" and "create_fault ev = None"
  shows "handleSubmit ev st fd w = recover ev fd (logged (CreateUser (email fd) (password fd)) w)"
  using assms
  by (auto simp: handleSubmit_def handleSubmit_catch_def createUserWithEmailAndPassword_def Let_def)

section \<open>Banned identities\<close>

text \<open>
  C1. Let the stored profile of an identity have \<open>status = banned\<close>. Every run of the admin
  email flow for the email of that identity, and every run of the federated flow in which
  the popup yields that identity, returns, ends neither in \<open>Restored\<close> nor in \<open>Created\<close>, and
  leaves the store as it was. A run that reaches the ban check (the form is valid, the
  provider answers, the password is the registered one, the profile read succeeds) ends in
  \<open>Denied\<close> with the session signed out, and the calls it made are exactly the creation
  attempt, the login, the profile read and the sign-out: no write.
\<close>

theorem banned_identity_denied:
  assumes "store w ''users'' i = Some d" and "d ''status'' = Some ''banned''"
  shows
   "(accounts w (email fd) = Some a \<and> acc_uid a = i \<longrightarrow>
       (\<exists>out w'. handleSubmit ev st fd w = Some (out, w') \<and> out \<noteq> Restored \<and> out \<noteq> Created \<and>
            store w' = store w) \<and>
       (\<not> loadingCode st \<and> Some (adminCode fd) = systemAdminCode st \<and>
        password fd = confirmPassword fd \<and> 6 \<le> length (password fd) \<and>
        create_fault ev = None \<and> login_fault ev = None \<and> acc_password a = password fd \<and>
        \<not> read_fails ev \<longrightarrow>
          handleSubmit ev st fd w = Some (Denied,
            w\<lparr>calls := calls w @ [CreateUser (email fd) (password fd),
                    SignIn (email fd) (password fd), GetDoc ''users'' i, SignOut],
               session := None\<rparr>))) \<and>
    (popup ev = Inr u \<and> uid u = i \<longrightarrow>
       (\<exists>out w'. handleGoogleRegister ev st fd w = Some (out, w') \<and> out \<noteq> Restored \<and>
            out \<noteq> Created \<and> store w' = store w) \<and>
       (\<not> loadingCode st \<and> Some (adminCode fd) = systemAdminCode st \<and> \<not> read_fails ev \<longrightarrow>
          handleGoogleRegister ev st fd w = Some (Denied,
            w\<lparr>calls := calls w @ [SignInPopup, GetDoc ''users'' i, SignOut],
               session := None\<rparr>)))"
proof (intro conjI impI)
  assume h: "accounts w (email fd) = Some a \<and> acc_uid a = i"
  let ?w1 = "logged (CreateUser (email fd) (password fd)) w"
  have r: "\<exists>out w'. recover ev fd ?w1 = Some (out, w') \<and> out \<in> {IncorrectCredential, Denied} \<and>
           store w' = store ?w1 \<and> accounts w' = accounts ?w1"
    by (rule recover_banned[where a=a and d=d]) (use h assms in \<open>auto simp: logged_def\<close>)
  show "\<exists>out w'. handleSubmit ev st fd w = Some (out, w') \<and> out \<noteq> Restored \<and> out \<noteq> Created \<and>
            store w' = store w"
    using h r
    by (auto simp: handleSubmit_def handleSubmit_catch_def createUserWithEmailAndPassword_def Let_def
          logged_def split: option.splits)
next
  assume h: "accounts w (email fd) = Some a \<and> acc_uid a = i"
  assume v: "\<not> loadingCode st \<and> Some (adminCode fd) = systemAdminCode st \<and>
        password fd = confirmPassword fd \<and> 6 \<le> length (password fd) \<and>
        create_fault ev = None \<and> login_fault ev = None \<and> acc_password a = password fd \<and>
        \<not> read_fails ev"
  let ?w1 = "logged (CreateUser (email fd) (password fd)) w"
  have "recover ev fd ?w1 = Some (Denied,
            ?w1\<lparr>calls := calls ?w1 @ [SignIn (email fd) (password fd), GetDoc ''users'' (acc_uid a), SignOut],
               session := None\<rparr>)"
    by (rule recover_banned_denied[where d=d]) (use h v assms in \<open>auto simp: logged_def\<close>)
  then show "handleSubmit ev st fd w = Some (Denied,
            w\<lparr>calls := calls w @ [CreateUser (email fd) (password fd),
                    SignIn (email fd) (password fd), GetDoc ''users'' i, SignOut],
               session := None\<rparr>)"
    using h v
    by (auto simp: handleSubmit_def handleSubmit_catch_def createUserWithEmailAndPassword_def Let_def
          logged_def)
next
  assume h: "popup ev = Inr u \<and> uid u = i"
  show "\<exists>out w'. handleGoogleRegister ev st fd w = Some (out, w') \<and> out \<noteq> Restored \<and>
            out \<noteq> Created \<and> store w' = store w"
    using h assms
    by (auto simp: handleGoogleRegister_def prim_defs is_banned_def)
next
  assume h: "popup ev = Inr u \<and> uid u = i"
  assume v: "\<not> loadingCode st \<and> Some (adminCode fd) = systemAdminCode st \<and> \<not> read_fails ev"
  show "handleGoogleRegister ev st fd w = Some (Denied,
            w\<lparr>calls := calls w @ [SignInPopup, GetDoc ''users'' i, SignOut],
               session := None\<rparr>)"
    using h v assms
    by (simp add: handleGoogleRegister_def prim_defs is_banned_def)
qed

theorem banned_identity_denied_witness:
  "store world_banned ''users'' ''u-ann'' = Some ann_banned \<and>
   ann_banned ''status'' = Some ''banned'' \<and>
   accounts world_banned (email form_ok) = Some ann_account \<and> acc_uid ann_account = ''u-ann'' \<and>
   acc_password ann_account = password form_ok \<and>
   popup env_ok = Inr ann \<and> uid ann = ''u-ann'' \<and>
   handleSubmit env_ok state_ok form_ok world_banned =
     Some (Denied, world_banned\<lparr>calls := [CreateUser ''ann@cvfms.lk'' ''s3cret!'',
              SignIn ''ann@cvfms.lk'' ''s3cret!'', GetDoc ''users'' ''u-ann'', SignOut],
            session := None\<rparr>) \<and>
   handleGoogleRegister env_ok state_ok form_ok world_banned =
     Some (Denied, world_banned\<lparr>calls := [SignInPopup, GetDoc ''users'' ''u-ann'', SignOut],
            session := None\<rparr>)"
proof -
  have h: "store world_banned ''users'' ''u-ann'' = Some ann_banned"
    "ann_banned ''status'' = Some ''banned''"
    by (simp_all add: fixture_defs)
  have g: "accounts world_banned (email form_ok) = Some ann_account" "acc_uid ann_account = ''u-ann''"
    "acc_password ann_account = password form_ok" "popup env_ok = Inr ann" "uid ann = ''u-ann''"
    "\<not> loadingCode state_ok" "Some (adminCode form_ok) = systemAdminCode state_ok"
    "password form_ok = confirmPassword form_ok" "6 \<le> length (password form_ok)"
    "create_fault env_ok = None" "login_fault env_ok = None" "\<not> read_fails env_ok"
    "calls world_banned = []" "email form_ok = ''ann@cvfms.lk''" "password form_ok = ''s3cret!''"
    by (simp_all add: fixture_defs)
  show ?thesis
    using banned_identity_denied [OF h, of form_ok ann_account env_ok state_ok ann] h g
    by simp
qed

section \<open>Validation\<close>

text \<open>
  C5. Once the access code has loaded, a form that fails validation is answered in the
  order access code (\<open>CodeMismatch\<close>), password confirmation (\<open>PasswordMismatch\<close>), password
  length below 6 (\<open>WeakPassword\<close>), and the run returns with the world untouched: no remote
  call is logged and the provider, the session and the store are as they were.
\<close>

theorem validation_order:
  assumes "\<not> loadingCode st"
    and "Some (adminCode fd) \<noteq> systemAdminCode st \<or> password fd \<noteq> confirmPassword fd \<or>
         length (password fd) < 6"
  shows "handleSubmit ev st fd w =
           Some (if Some (adminCode fd) \<noteq> systemAdminCode st then CodeMismatch
                 else if password fd \<noteq> confirmPassword fd then PasswordMismatch
                 else WeakPassword, w)"
  using assms by (auto simp: handleSubmit_def)

theorem validation_order_witness:
  "\<not> loadingCode state_ok \<and>
   Some (adminCode (form_ok\<lparr>adminCode := ''admin'', password := ''abc''\<rparr>)) \<noteq> systemAdminCode state_ok \<and>
   handleSubmit env_ok state_ok (form_ok\<lparr>adminCode := ''admin'', password := ''abc''\<rparr>) world_ann
     = Some (CodeMismatch, world_ann) \<and>
   password (form_ok\<lparr>password := ''abc''\<rparr>) \<noteq> confirmPassword (form_ok\<lparr>password := ''abc''\<rparr>) \<and>
   handleSubmit env_ok state_ok (form_ok\<lparr>password := ''abc''\<rparr>) world_ann
     = Some (PasswordMismatch, world_ann) \<and>
   length (password (form_ok\<lparr>password := ''abc'', confirmPassword := ''abc''\<rparr>)) < 6 \<and>
   handleSubmit env_ok state_ok (form_ok\<lparr>password := ''abc'', confirmPassword := ''abc''\<rparr>) world_ann
     = Some (WeakPassword, world_ann)"
proof -
  have l: "\<not> loadingCode state_ok" by (simp add: state_ok_def)
  have c: "Some (adminCode (form_ok\<lparr>adminCode := ''admin'', password := ''abc''\<rparr>)) \<noteq> systemAdminCode state_ok"
    by (simp add: state_ok_def)
  have p: "password (form_ok\<lparr>password := ''abc''\<rparr>) \<noteq> confirmPassword (form_ok\<lparr>password := ''abc''\<rparr>)"
    "Some (adminCode (form_ok\<lparr>password := ''abc''\<rparr>)) = systemAdminCode state_ok"
    by (simp_all add: form_ok_def state_ok_def)
  have k: "length (password (form_ok\<lparr>password := ''abc'', confirmPassword := ''abc''\<rparr>)) < 6"
    "Some (adminCode (form_ok\<lparr>password := ''abc'', confirmPassword := ''abc''\<rparr>)) = systemAdminCode state_ok"
    "password (form_ok\<lparr>password := ''abc'', confirmPassword := ''abc''\<rparr>)
       = confirmPassword (form_ok\<lparr>password := ''abc'', confirmPassword := ''abc''\<rparr>)"
    by (simp_all add: form_ok_def state_ok_def)
  show ?thesis
    using validation_order [OF l disjI1, OF c, of env_ok world_ann]
      validation_order [OF l disjI2, OF disjI1, OF p(1), of env_ok world_ann]
      validation_order [OF l disjI2, OF disjI2, OF k(1), of env_ok world_ann]
      l c p k
    by simp
qed

section \<open>A wrong password\<close>

text \<open>
  C6. A run of the admin email flow with a valid form on an existing identity with a
  password that is not the registered one ends in \<open>IncorrectCredential\<close> (the creation
  attempt being answered with "already in use"). The only change to the world is the log
  of the two calls made, the creation attempt and the login: accounts, session and store
  are as they were.
\<close>

theorem wrong_password_no_mutation:
  assumes "\<not> loadingCode st" and "Some (adminCode fd) = systemAdminCode st"
    and "password fd = confirmPassword fd" and "6 \<le> length (password fd)"
    and "accounts w (email fd) = Some a" and "acc_password a \<noteq> password fd"
    and "create_fault ev = None"
  shows "handleSubmit ev st fd w =
           Some (IncorrectCredential,
                 w\<lparr>calls := calls w @ [CreateUser (email fd) (password fd),
                                        SignIn (email fd) (password fd)]\<rparr>)"
  using assms
  by (auto simp: handleSubmit_def handleSubmit_catch_def recover_def prim_defs split: option.splits)

theorem wrong_password_no_mutation_witness:
  "\<not> loadingCode state_ok \<and> Some (adminCode form_wrong_password) = systemAdminCode state_ok \<and>
   password form_wrong_password = confirmPassword form_wrong_password \<and>
   6 \<le> length (password form_wrong_password) \<and>
   accounts world_ann (email form_wrong_password) = Some ann_account \<and>
   acc_password ann_account \<noteq> password form_wrong_password \<and>
   create_fault env_ok = None \<and>
   handleSubmit env_ok state_ok form_wrong_password world_ann =
     Some (IncorrectCredential,
           world_ann\<lparr>calls := [CreateUser ''ann@cvfms.lk'' ''guess123'',
                                 SignIn ''ann@cvfms.lk'' ''guess123'']\<rparr>)"
proof -
  have h: "\<not> loadingCode state_ok" "Some (adminCode form_wrong_password) = systemAdminCode state_ok"
    "password form_wrong_password = confirmPassword form_wrong_password"
    "6 \<le> length (password form_wrong_password)"
    "accounts world_ann (email form_wrong_password) = Some ann_account"
    "acc_password ann_account \<noteq> password form_wrong_password"
    "create_fault env_ok = None"
    by (simp_all add: fixture_defs)
  have g: "calls world_ann = []" "email form_wrong_password = ''ann@cvfms.lk''"
    "password form_wrong_password = ''guess123''"
    by (simp_all add: fixture_defs)
  show ?thesis
    using wrong_password_no_mutation [OF h] h g by simp
qed

section \<open>A new administrator\<close>

text \<open>
  C3. The claim is that a call with the correct access code, matching passwords of at least
  6 characters and a brand-new email ends in \<open>Created\<close>, with a profile written that has
  \<open>role = admin\<close>, \<open>status = active\<close>, \<open>authProvider = email\<close>, \<open>createdAt\<close> = the current time and
  no \<open>restoredAt\<close>. With the default setting of the handle such a run creates the identity
  and then throws in \<open>setupAdminProfile\<close>, whose literal has \<open>restoredAt: undefined\<close>: it ends
  in \<open>Failed\<close> with the message of the SDK, the identity created and signed in, and no
  profile written. The literal has no \<open>authProvider\<close> field either.
\<close>

theorem new_admin_profile_refused:
  "Some (adminCode form_ok) = systemAdminCode state_ok \<and>
   password form_ok = confirmPassword form_ok \<and> 6 \<le> length (password form_ok) \<and>
   accounts world_empty (email form_ok) = None \<and> create_fault env_ok = None \<and>
   \<not> ignoreUndefinedProperties env_ok \<and>
   handleSubmit env_ok state_ok form_ok world_empty =
     Some (Failed (''Failed to register. '' @ err_message (invalid_data ''setDoc'')),
           world_empty\<lparr>calls := [CreateUser ''ann@cvfms.lk'' ''s3cret!'',
                    SetDoc ''users'' ''u-ann''
                      [(''uid'', Some ''u-ann''), (''email'', Some ''ann@cvfms.lk''),
                       (''role'', Some ''admin''), (''status'', Some ''active''),
                       (''createdAt'', Some ''2025-06-01T08:00:00.000Z''),
                       (''restoredAt'', None)]],
                  accounts := [''ann@cvfms.lk'' \<mapsto> ann_account],
                  session := Some ''u-ann''\<rparr>) \<and>
   field_after (handleSubmit env_ok state_ok form_ok world_empty) ''u-ann'' ''role'' = None"
  by (simp add: fixture_defs admin_flow_defs prim_defs admin_profile_undefined invalid_data_def
        field_after_def profile_field_def)
     (simp add: admin_profile_def)

section \<open>Restoring an administrator\<close>

text \<open>
  C4. The claim is that a call on an existing identity that is not banned, with its
  registered password, ends in \<open>Restored\<close> with \<open>role = admin\<close>, \<open>status = active\<close> and
  \<open>restoredAt\<close> set and every other field unchanged. With the default setting of the handle
  such a run logs in, passes the ban check and then throws in \<open>setupAdminProfile\<close>, whose
  literal has \<open>createdAt: undefined\<close>; the inner \<open>catch\<close> reports it as a wrong password
  (\<open>IncorrectCredential\<close>). Nothing is written: the role stays what it was and no
  \<open>restoredAt\<close> appears; the session stays signed in.
\<close>

theorem restore_refused:
  "Some (adminCode form_ok) = systemAdminCode state_ok \<and>
   password form_ok = confirmPassword form_ok \<and> 6 \<le> length (password form_ok) \<and>
   accounts world_ann (email form_ok) = Some ann_account \<and>
   acc_password ann_account = password form_ok \<and>
   store world_ann ''users'' (acc_uid ann_account) = Some ann_profile \<and>
   ann_profile ''status'' = Some ''active'' \<and>
   \<not> ignoreUndefinedProperties env_ok \<and>
   handleSubmit env_ok state_ok form_ok world_ann =
     Some (IncorrectCredential,
           world_ann\<lparr>calls := [CreateUser ''ann@cvfms.lk'' ''s3cret!'',
                    SignIn ''ann@cvfms.lk'' ''s3cret!'', GetDoc ''users'' ''u-ann'',
                    SetDoc ''users'' ''u-ann''
                      [(''uid'', Some ''u-ann''), (''email'', Some ''ann@cvfms.lk''),
                       (''role'', Some ''admin''), (''status'', Some ''active''),
                       (''createdAt'', None),
                       (''restoredAt'', Some ''2025-06-01T08:00:00.000Z'')]],
                  session := Some ''u-ann''\<rparr>) \<and>
   field_after (handleSubmit env_ok state_ok form_ok world_ann) ''u-ann'' ''role'' = Some ''user'' \<and>
   field_after (handleSubmit env_ok state_ok form_ok world_ann) ''u-ann'' ''restoredAt'' = None"
  by (simp add: fixture_defs admin_flow_defs prim_defs admin_profile_undefined
        field_after_def profile_field_def)
     (simp add: admin_profile_def)

section \<open>The ban check\<close>

text \<open>
  A run ends in \<open>Denied\<close> only if the profile document of the identity exists and its
  \<open>status\<close> field is \<open>banned\<close>, in the email recovery branch and in the federated flow
  alike.
\<close>

lemma recover_denied_only_banned:
  "recover ev fd w = Some (Denied, w') \<Longrightarrow>
     \<exists>a d. accounts w (email fd) = Some a \<and> store w ''users'' (acc_uid a) = Some d \<and>
           d ''status'' = Some ''banned''"
  by (auto simp: recover_def setupAdminProfile_def prim_defs is_banned_def
        split: option.splits if_splits settle.splits)

lemma denied_only_if_banned:
  "(handleSubmit ev st fd w = Some (Denied, w') \<longrightarrow>
      (\<exists>a d. accounts w (email fd) = Some a \<and> store w ''users'' (acc_uid a) = Some d \<and>
             d ''status'' = Some ''banned'')) \<and>
   (handleGoogleRegister ev st fd w = Some (Denied, w') \<longrightarrow>
      (\<exists>u d. popup ev = Inr u \<and> store w ''users'' (uid u) = Some d \<and>
             d ''status'' = Some ''banned''))"
proof (rule conjI; rule impI)
  assume "handleSubmit ev st fd w = Some (Denied, w')"
  then have "recover ev fd (logged (CreateUser (email fd) (password fd)) w) = Some (Denied, w')"
    by (auto simp: handleSubmit_def handleSubmit_catch_def createUserWithEmailAndPassword_def
          setupAdminProfile_def setDoc_merge_def write_promise_def write_error_def
          store_error_def invalid_data_def Let_def
          split: if_splits option.splits settle.splits)
  from recover_denied_only_banned [OF this]
  show "\<exists>a d. accounts w (email fd) = Some a \<and> store w ''users'' (acc_uid a) = Some d \<and>
             d ''status'' = Some ''banned''"
    by (simp add: logged_def)
next
  assume "handleGoogleRegister ev st fd w = Some (Denied, w')"
  then show "\<exists>u d. popup ev = Inr u \<and> store w ''users'' (uid u) = Some d \<and>
             d ''status'' = Some ''banned''"
    by (auto simp: handleGoogleRegister_def setupAdminProfile_def prim_defs is_banned_def
          split: if_splits option.splits settle.splits sum.splits)
qed

text \<open>
  C9. The claim is that the ban check denies only on an existing document with
  \<open>status = banned\<close> and that, for an identity with no profile document, the flow goes on as
  for an identity that is not banned and restores a profile with \<open>status = active\<close>. The
  first half holds (\<open>denied_only_if_banned\<close>). For an identity with no profile document and
  the default setting of the handle, both flows pass the ban check and then throw in
  \<open>setupAdminProfile\<close>, whose literal has \<open>createdAt: undefined\<close>: the email flow ends in
  \<open>IncorrectCredential\<close>, the federated flow in \<open>Failed\<close>, and no profile is written.
\<close>

theorem absent_profile_not_restored:
  "Some (adminCode form_ok) = systemAdminCode state_ok \<and>
   password form_ok = confirmPassword form_ok \<and> 6 \<le> length (password form_ok) \<and>
   accounts world_orphan (email form_ok) = Some ann_account \<and>
   acc_password ann_account = password form_ok \<and> popup env_ok = Inr ann \<and>
   store world_orphan ''users'' ''u-ann'' = None \<and>
   \<not> ignoreUndefinedProperties env_ok \<and>
   handleSubmit env_ok state_ok form_ok world_orphan =
     Some (IncorrectCredential,
           world_orphan\<lparr>calls := [CreateUser ''ann@cvfms.lk'' ''s3cret!'',
                    SignIn ''ann@cvfms.lk'' ''s3cret!'', GetDoc ''users'' ''u-ann'',
                    SetDoc ''users'' ''u-ann''
                      [(''uid'', Some ''u-ann''), (''email'', Some ''ann@cvfms.lk''),
                       (''role'', Some ''admin''), (''status'', Some ''active''),
                       (''createdAt'', None),
                       (''restoredAt'', Some ''2025-06-01T08:00:00.000Z'')]],
                  session := Some ''u-ann''\<rparr>) \<and>
   handleGoogleRegister env_ok state_ok form_ok world_orphan =
     Some (Failed (''Google registration failed. '' @ err_message (invalid_data ''setDoc'')),
           world_orphan\<lparr>calls := [SignInPopup, GetDoc ''users'' ''u-ann'',
                    SetDoc ''users'' ''u-ann''
                      [(''uid'', Some ''u-ann''), (''email'', Some ''ann@cvfms.lk''),
                       (''role'', Some ''admin''), (''status'', Some ''active''),
                       (''createdAt'', None),
                       (''restoredAt'', Some ''2025-06-01T08:00:00.000Z'')]],
                  session := Some ''u-ann''\<rparr>) \<and>
   field_after (handleSubmit env_ok state_ok form_ok world_orphan) ''u-ann'' ''status'' = None \<and>
   field_after (handleGoogleRegister env_ok state_ok form_ok world_orphan) ''u-ann'' ''status''
     = None"
  by (simp add: fixture_defs admin_flow_defs prim_defs admin_profile_undefined invalid_data_def
        field_after_def profile_field_def)
     (simp add: admin_profile_def)

text \<open>
  The same runs with a handle that ignores undefined properties end as the handlers
  intend.
\<close>

lemma runs_with_undefined_ignored:
  "outcome_of (handleSubmit env_lenient state_ok form_ok world_empty) = Some Created \<and>
   outcome_of (handleSubmit env_lenient state_ok form_ok world_ann) = Some Restored \<and>
   outcome_of (handleSubmit env_lenient state_ok form_ok world_orphan) = Some Restored \<and>
   outcome_of (handleGoogleRegister env_lenient state_ok form_ok world_orphan) = Some Restored \<and>
   field_after (handleSubmit env_lenient state_ok form_ok world_orphan) ''u-ann'' ''status''
     = Some ''active''"
  by (simp add: fixture_defs admin_flow_defs prim_defs admin_profile_undefined
        outcome_of_def field_after_def profile_field_def merge_doc_def defined_fields_def
        admin_profile_def List.map_filter_simps)

section \<open>The timestamps of a profile\<close>

text \<open>
  Every call of \<open>saveUserProfile\<close> whose write lands before the timeout sets \<open>createdAt\<close> to
  the current time, whether or not the profile had one.
\<close>

lemma saveUserProfile_stamps_createdAt:
  assumes "write_settles ev = Resolves t" and "t < 5000"
  shows "\<exists>w'. saveUserProfile ev fd user isGoogle w = Some (w', t) \<and>
           profile_field w' (uid user) ''createdAt'' = Some (now ev)"
  using assms
  by (simp add: saveUserProfile_def write_promise_def refuses_def has_undefined_def
        withTimeout_def written_def logged_def profile_field_def merge_doc_def
        defined_fields_def user_profile_def List.map_filter_simps Let_def)

text \<open>
  C2. The claim is that \<open>createdAt\<close> is set once, at the first successful provisioning, and
  that no later merge-write (recovery, federated re-sign-in, repeated registration)
  overwrites it. A Google sign-up in the user flow by an identity whose profile has a
  \<open>createdAt\<close> ends in its success outcome and replaces the stored \<open>createdAt\<close> by the
  current time: \<open>saveUserProfile\<close> puts \<open>createdAt\<close> into every merge-write.
\<close>

theorem google_signup_overwrites_createdAt:
  "store world_ann ''users'' ''u-ann'' = Some ann_profile \<and>
   profile_field world_ann ''u-ann'' ''createdAt'' = Some ''2024-01-15T10:30:00.000Z'' \<and>
   popup env_ok = Inr ann \<and> uid ann = ''u-ann'' \<and> now env_ok = ''2025-06-01T08:00:00.000Z'' \<and>
   (case handleGoogleSignup env_ok user_form_ok world_ann of
      None \<Rightarrow> False
    | Some (out, w', t) \<Rightarrow>
        out = Created \<and>
        profile_field w' ''u-ann'' ''createdAt'' = Some ''2025-06-01T08:00:00.000Z'')"
  by (simp add: fixture_defs profile_field_def handleGoogleSignup_def saveUserProfile_def
        withTimeout_def prim_defs has_undefined_def merge_doc_def defined_fields_def
        List.map_filter_simps user_profile_def)

section \<open>The upsert and its timeout\<close>

lemma withTimeout_settles:
  "\<exists>t. t \<le> ms \<and> (withTimeout p ms = Resolves t \<or> withTimeout p ms = Rejects t)"
  by (cases p) (auto simp: withTimeout_def)

lemma saveUserProfile_returns:
  "\<exists>w' t. saveUserProfile ev fd user isGoogle w = Some (w', t) \<and> t \<le> 5000"
  using withTimeout_settles [of 5000 "write_promise ev (user_profile ev fd user isGoogle)"]
  by (auto simp: saveUserProfile_def Let_def)

text \<open>
  C7, as amended. The upsert of the user registration flow, \<open>saveUserProfile\<close>, always
  returns, having waited at most 5000 ms, whatever the store does; the email sign-up (on a
  valid form and a new email) and the Google sign-up (once the popup yields an identity)
  therefore end in their success outcome within that bound, also when the write rejects or
  never settles. The upsert of the admin flows, \<open>setupAdminProfile\<close>, is awaited with no
  timeout and its failure is not swallowed: in the create branch a write that rejects ends
  the run in \<open>Failed\<close>, and a write that never settles leaves the run pending. (With the
  default setting of the handle, the rejection comes from the SDK, before the write is
  sent.)
\<close>

theorem user_upsert_bounded:
  "(\<exists>w' t. saveUserProfile ev fd user isGoogle w = Some (w', t) \<and> t \<le> 5000) \<and>
   (password fd = confirmPassword fd \<and> 6 \<le> length (password fd) \<and>
    accounts w (email fd) = None \<and> create_fault ev = None \<longrightarrow>
      (\<exists>w' t. handleSubmit_user ev fd w = Some (Created, w', t) \<and> t \<le> 5000)) \<and>
   (popup ev = Inr u \<longrightarrow>
      (\<exists>w' t. handleGoogleSignup ev fd w = Some (Created, w', t) \<and> t \<le> 5000)) \<and>
   (\<not> loadingCode st \<and> Some (adminCode afd) = systemAdminCode st \<and>
    password afd = confirmPassword afd \<and> 6 \<le> length (password afd) \<and>
    accounts w (email afd) = None \<and> create_fault ev = None \<longrightarrow>
      (\<not> ignoreUndefinedProperties ev \<longrightarrow>
         outcome_of (handleSubmit ev st afd w)
           = Some (Failed (''Failed to register. '' @ err_message (invalid_data ''setDoc'')))) \<and>
      (ignoreUndefinedProperties ev \<and> write_settles ev = Never \<longrightarrow>
         handleSubmit ev st afd w = None) \<and>
      (\<forall>t. ignoreUndefinedProperties ev \<and> write_settles ev = Rejects t \<longrightarrow>
         outcome_of (handleSubmit ev st afd w)
           = Some (Failed ''Failed to register. Failed to reach the store.'')))"
proof (intro conjI)
  show "\<exists>w' t. saveUserProfile ev fd user isGoogle w = Some (w', t) \<and> t \<le> 5000"
    by (rule saveUserProfile_returns)
  show "password fd = confirmPassword fd \<and> 6 \<le> length (password fd) \<and>
    accounts w (email fd) = None \<and> create_fault ev = None \<longrightarrow>
      (\<exists>w' t. handleSubmit_user ev fd w = Some (Created, w', t) \<and> t \<le> 5000)"
  proof
    assume h: "password fd = confirmPassword fd \<and> 6 \<le> length (password fd) \<and>
      accounts w (email fd) = None \<and> create_fault ev = None"
    obtain user w1 where c: "createUserWithEmailAndPassword ev (email fd) (password fd) w = (Inr user, w1)"
      using h by (simp add: createUserWithEmailAndPassword_def Let_def)
    obtain w2 t where s: "saveUserProfile ev fd user False w1 = Some (w2, t)" "t \<le> 5000"
      using saveUserProfile_returns by blast
    show "\<exists>w' t. handleSubmit_user ev fd w = Some (Created, w', t) \<and> t \<le> 5000"
      using h c s by (auto simp: handleSubmit_user_def)
  qed
  show "popup ev = Inr u \<longrightarrow>
      (\<exists>w' t. handleGoogleSignup ev fd w = Some (Created, w', t) \<and> t \<le> 5000)"
  proof
    assume h: "popup ev = Inr u"
    obtain w2 t where s: "saveUserProfile ev fd u True (logged SignInPopup w\<lparr>session := Some (uid u)\<rparr>)
        = Some (w2, t)" "t \<le> 5000"
      using saveUserProfile_returns by blast
    show "\<exists>w' t. handleGoogleSignup ev fd w = Some (Created, w', t) \<and> t \<le> 5000"
      using h s by (auto simp: handleGoogleSignup_def signInWithPopup_def Let_def)
  qed
  show "\<not> loadingCode st \<and> Some (adminCode afd) = systemAdminCode st \<and>
    password afd = confirmPassword afd \<and> 6 \<le> length (password afd) \<and>
    accounts w (email afd) = None \<and> create_fault ev = None \<longrightarrow>
      (\<not> ignoreUndefinedProperties ev \<longrightarrow>
         outcome_of (handleSubmit ev st afd w)
           = Some (Failed (''Failed to register. '' @ err_message (invalid_data ''setDoc'')))) \<and>
      (ignoreUndefinedProperties ev \<and> write_settles ev = Never \<longrightarrow>
         handleSubmit ev st afd w = None) \<and>
      (\<forall>t. ignoreUndefinedProperties ev \<and> write_settles ev = Rejects t \<longrightarrow>
         outcome_of (handleSubmit ev st afd w)
           = Some (Failed ''Failed to register. Failed to reach the store.''))"
    by (auto simp: outcome_of_def handleSubmit_def handleSubmit_catch_def or_unknown_def
          store_error_def invalid_data_def createUserWithEmailAndPassword_def Let_def
          setupAdminProfile_refused setupAdminProfile_sent)
qed

theorem user_upsert_bounded_witness:
  "password user_form_ok = confirmPassword user_form_ok \<and> 6 \<le> length (password user_form_ok) \<and>
   accounts world_empty (email user_form_ok) = None \<and> create_fault env_never = None \<and>
   popup env_never = Inr ann \<and> write_settles env_never = Never \<and>
   \<not> ignoreUndefinedProperties env_never \<and>
   ignoreUndefinedProperties (env_never\<lparr>ignoreUndefinedProperties := True\<rparr>) \<and>
   write_settles (env_never\<lparr>ignoreUndefinedProperties := True\<rparr>) = Never \<and>
   ignoreUndefinedProperties (env_rejecting\<lparr>ignoreUndefinedProperties := True\<rparr>) \<and>
   write_settles (env_rejecting\<lparr>ignoreUndefinedProperties := True\<rparr>) = Rejects 40 \<and>
   (\<exists>w' t. handleSubmit_user env_never user_form_ok world_empty = Some (Created, w', t) \<and> t \<le> 5000) \<and>
   (\<exists>w' t. handleGoogleSignup env_never user_form_ok world_empty = Some (Created, w', t) \<and> t \<le> 5000) \<and>
   outcome_of (handleSubmit env_never state_ok form_ok world_empty)
     = Some (Failed (''Failed to register. '' @ err_message (invalid_data ''setDoc''))) \<and>
   handleSubmit (env_never\<lparr>ignoreUndefinedProperties := True\<rparr>) state_ok form_ok world_empty = None \<and>
   outcome_of (handleSubmit (env_rejecting\<lparr>ignoreUndefinedProperties := True\<rparr>) state_ok form_ok
                 world_empty)
     = Some (Failed ''Failed to register. Failed to reach the store.'')"
proof -
  have h: "password user_form_ok = confirmPassword user_form_ok" "6 \<le> length (password user_form_ok)"
    "accounts world_empty (email user_form_ok) = None" "create_fault env_never = None"
    "popup env_never = Inr ann" "write_settles env_never = Never"
    "\<not> ignoreUndefinedProperties env_never"
    "ignoreUndefinedProperties (env_never\<lparr>ignoreUndefinedProperties := True\<rparr>)"
    "write_settles (env_never\<lparr>ignoreUndefinedProperties := True\<rparr>) = Never"
    "create_fault (env_never\<lparr>ignoreUndefinedProperties := True\<rparr>) = None"
    "ignoreUndefinedProperties (env_rejecting\<lparr>ignoreUndefinedProperties := True\<rparr>)"
    "write_settles (env_rejecting\<lparr>ignoreUndefinedProperties := True\<rparr>) = Rejects 40"
    "create_fault (env_rejecting\<lparr>ignoreUndefinedProperties := True\<rparr>) = None"
    "\<not> loadingCode state_ok" "Some (adminCode form_ok) = systemAdminCode state_ok"
    "password form_ok = confirmPassword form_ok" "6 \<le> length (password form_ok)"
    "accounts world_empty (email form_ok) = None"
    by (simp_all add: fixture_defs)
  show ?thesis
    using user_upsert_bounded [of env_never user_form_ok ann False world_empty ann state_ok form_ok]
      user_upsert_bounded [of "env_never\<lparr>ignoreUndefinedProperties := True\<rparr>" user_form_ok ann
         False world_empty ann state_ok form_ok]
      user_upsert_bounded [of "env_rejecting\<lparr>ignoreUndefinedProperties := True\<rparr>" user_form_ok ann
         False world_empty ann state_ok form_ok]
      h
    by simp
qed

text \<open>
  The claim as stated covers every registration flow: the admin email flow on a new email
  ends in \<open>Failed\<close> when the write is rejected, by the SDK or by the store, and does not
  return when a write that was sent never settles.
\<close>

theorem admin_upsert_unbounded_counterexample:
  "accounts world_empty (email form_ok) = None \<and>
   outcome_of (handleSubmit env_never state_ok form_ok world_empty)
     = Some (Failed (''Failed to register. '' @ err_message (invalid_data ''setDoc''))) \<and>
   outcome_of (handleSubmit env_rejecting state_ok form_ok world_empty)
     = Some (Failed (''Failed to register. '' @ err_message (invalid_data ''setDoc''))) \<and>
   handleSubmit (env_never\<lparr>ignoreUndefinedProperties := True\<rparr>) state_ok form_ok world_empty = None \<and>
   outcome_of (handleSubmit (env_rejecting\<lparr>ignoreUndefinedProperties := True\<rparr>) state_ok form_ok
                 world_empty)
     = Some (Failed ''Failed to register. Failed to reach the store.'')"
  by (simp add: outcome_of_def fixture_defs admin_flow_defs prim_defs admin_profile_undefined
        invalid_data_def)

section \<open>Changing the access code\<close>

lemma registrationKey_written:
  "merge_doc old [(''registrationKey'', Some k)] ''registrationKey'' = Some k"
  by (simp add: merge_doc_def defined_fields_def List.map_filter_simps)

text \<open>
  C8. Changing the access code ends in the validation error \<open>TooShort\<close> if and only if the
  new code is shorter than 5 characters, and then nothing is written (no call is logged).
  Otherwise, when the store write resolves, the run ends in \<open>Done\<close> and the next read of the
  code, by the registration form (\<open>fetchAdminCode\<close>) and by the roster (\<open>fetchData\<close>), yields
  the new code.
\<close>

theorem set_access_code:
  "(map_option fst (handleExecute ev (Some UpdateRegKey) newCode sel w) = Some TooShort
      \<longleftrightarrow> length newCode < 5) \<and>
   (length newCode < 5 \<longrightarrow>
      handleExecute ev (Some UpdateRegKey) newCode sel w = Some (TooShort, w)) \<and>
   (5 \<le> length newCode \<and> write_settles ev = Resolves t \<longrightarrow>
      (\<exists>w'. handleExecute ev (Some UpdateRegKey) newCode sel w = Some (Done, w') \<and>
         (\<forall>ev'. \<not> read_fails ev' \<longrightarrow>
            fst (fetchAdminCode ev' w') = newCode \<and> fst (fetchData ev' w') = newCode)))"
proof (intro conjI)
  show "map_option fst (handleExecute ev (Some UpdateRegKey) newCode sel w) = Some TooShort
      \<longleftrightarrow> length newCode < 5"
    by (auto simp: handleExecute_def setDoc_merge_def write_promise_def refuses_def has_undefined_def Let_def split: settle.splits)
  show "length newCode < 5 \<longrightarrow>
      handleExecute ev (Some UpdateRegKey) newCode sel w = Some (TooShort, w)"
    by (simp add: handleExecute_def)
  show "5 \<le> length newCode \<and> write_settles ev = Resolves t \<longrightarrow>
      (\<exists>w'. handleExecute ev (Some UpdateRegKey) newCode sel w = Some (Done, w') \<and>
         (\<forall>ev'. \<not> read_fails ev' \<longrightarrow>
            fst (fetchAdminCode ev' w') = newCode \<and> fst (fetchData ev' w') = newCode))"
  proof
    assume h: "5 \<le> length newCode \<and> write_settles ev = Resolves t"
    then have ne: "newCode \<noteq> []" by auto
    show "\<exists>w'. handleExecute ev (Some UpdateRegKey) newCode sel w = Some (Done, w') \<and>
         (\<forall>ev'. \<not> read_fails ev' \<longrightarrow>
            fst (fetchAdminCode ev' w') = newCode \<and> fst (fetchData ev' w') = newCode)"
      using h ne
      by (simp add: handleExecute_def setDoc_merge_def write_promise_def refuses_def has_undefined_def written_def logged_def Let_def
            fetchAdminCode_def fetchData_def getDoc_def truthy_key_def registrationKey_written)
  qed
qed

theorem set_access_code_witness:
  "length ''ab'' < 5 \<and>
   handleExecute env_ok (Some UpdateRegKey) ''ab'' [] world_empty = Some (TooShort, world_empty) \<and>
   5 \<le> length ''abcde'' \<and> write_settles env_ok = Resolves 120 \<and> \<not> read_fails env_ok \<and>
   (\<exists>w'. handleExecute env_ok (Some UpdateRegKey) ''abcde'' [] world_empty = Some (Done, w') \<and>
         fst (fetchAdminCode env_ok w') = ''abcde'' \<and> fst (fetchData env_ok w') = ''abcde'')"
proof -
  have h: "write_settles env_ok = Resolves 120" "\<not> read_fails env_ok"
    by (simp_all add: fixture_defs)
  show ?thesis
    using set_access_code [of env_ok "''ab''" "[]" world_empty 120]
      set_access_code [of env_ok "''abcde''" "[]" world_empty 120] h
    by auto
qed

section \<open>The two readers of the access code\<close>

text \<open>
  The registration form and the roster read the same record. They agree when the record is
  absent and when it holds a non-empty \<open>registrationKey\<close>; they differ when the record exists
  with the field absent or empty.
\<close>

lemma readers_agree:
  assumes "\<not> read_fails ev"
    and "store w ''settings'' ''admin_config'' = None \<or>
         (\<exists>d. store w ''settings'' ''admin_config'' = Some d \<and> truthy_key d)"
  shows "fst (fetchAdminCode ev w) = fst (fetchData ev w)"
  using assms
  by (auto simp: fetchAdminCode_def fetchData_def getDoc_def logged_def Let_def truthy_key_def
        split: option.splits)

lemma readers_disagree:
  assumes "\<not> read_fails ev" and "store w ''settings'' ''admin_config'' = Some d"
    and "\<not> truthy_key d"
  shows "fst (fetchAdminCode ev w) = ''ADMIN2025''" and "fst (fetchData ev w) = ''Not Set''"
  using assms
  by (auto simp: fetchAdminCode_def fetchData_def getDoc_def logged_def Let_def truthy_key_def
        split: option.splits)

text \<open>
  C10. The claim is that the code the registration form validates against equals the code
  the roster displays in every state of the configuration store. With the record present
  and no \<open>registrationKey\<close> in it, the form validates against \<open>ADMIN2025\<close> while the roster
  displays \<open>Not Set\<close>.
\<close>

theorem registration_key_readers_keyless:
  "store world_keyless ''settings'' ''admin_config'' = Some Map.empty \<and>
   fst (fetchAdminCode env_ok world_keyless) = ''ADMIN2025'' \<and>
   fst (fetchData env_ok world_keyless) = ''Not Set'' \<and>
   fst (fetchAdminCode env_ok world_keyless) \<noteq> fst (fetchData env_ok world_keyless)"
  by (simp add: fixture_defs fetchAdminCode_def fetchData_def getDoc_def logged_def Let_def
        truthy_key_def)

end
